theory Spec2Isabelle
  imports Main
begin

section \<open>Python values and exceptions\<close>

text \<open>
  Values that travel through the configuration mapping and the shared artifact bag
  of \<^verbatim>\<open>marker/converters/pdf.py\<close>. \<open>PyObj\<close> is an opaque object (a loaded model,
  a resolved service) named by a handle.
\<close>

datatype pyval =
    PyNone
  | PyBool bool
  | PyInt int
  | PyStr string
  | PyList "pyval list"
  | PyObj string

text \<open>Python's truth test, as used by \<^verbatim>\<open>if renderer:\<close> and \<^verbatim>\<open>if llm_service:\<close>.\<close>

fun truthy :: "pyval \<Rightarrow> bool" where
  "truthy PyNone = False"
| "truthy (PyBool b) = b"
| "truthy (PyInt i) = (i \<noteq> 0)"
| "truthy (PyStr s) = (s \<noteq> [])"
| "truthy (PyList xs) = (xs \<noteq> [])"
| "truthy (PyObj h) = True"

text \<open>
  Exceptions as values. The first six are raised by the interpreter or by a statement of
  the source; \<open>StageError\<close> is an exception coming out of an external collaborator
  (builder, processor, renderer, resolver). \<open>ConfigurationError\<close> is the error class
  the specification names; it is part of the type so that statements about it can be
  written down.
\<close>

datatype error =
    UnboundLocalError string
  | AttributeError string
  | TypeError string
  | ValueError string
  | IndexError string
  | OSError string
  | StageError string
  | ConfigurationError string


fun is_OSError :: "error \<Rightarrow> bool" where
  "is_OSError (OSError m) = True"
| "is_OSError e = False"

section \<open>The file system and the temporary file\<close>

type_synonym path = string
type_synonym fs = "path \<rightharpoonup> string"

text \<open>
  What the operating system decides: the name \<^verbatim>\<open>tempfile.NamedTemporaryFile\<close> picks
  (\<open>None\<close> when no file can be created), whether a write to a file fails, and whether
  removing a file is refused.
\<close>

record os =
  mktemp :: "fs \<Rightarrow> path option"
  write_fails :: "path \<Rightarrow> string \<Rightarrow> bool"
  unlink_denied :: "path \<Rightarrow> bool"

definition os_path_exists :: "fs \<Rightarrow> path \<Rightarrow> bool" where
  "os_path_exists files p = (files p \<noteq> None)"

text \<open>\<^verbatim>\<open>os.unlink\<close>: raises \<^verbatim>\<open>OSError\<close> on a missing file or a refused removal.\<close>

definition os_unlink :: "os \<Rightarrow> path \<Rightarrow> fs \<Rightarrow> error + fs" where
  "os_unlink sys p files =
     (if files p = None then Inl (OSError ''FileNotFoundError'')
      else if unlink_denied sys p then Inl (OSError ''PermissionError'')
      else Inr (files(p := None)))"

text \<open>
  \<^verbatim>\<open>tempfile.NamedTemporaryFile(delete=False, suffix=".pdf")\<close>: a new, empty file
  under a name that was not in use.
\<close>

definition NamedTemporaryFile :: "os \<Rightarrow> fs \<Rightarrow> error + (path \<times> fs)" where
  "NamedTemporaryFile sys files =
     (case mktemp sys files of
        None \<Rightarrow> Inl (OSError ''NamedTemporaryFile'')
      | Some p \<Rightarrow>
          if files p \<noteq> None then Inl (OSError ''FileExistsError'')
          else Inr (p, files(p \<mapsto> [])))"

definition file_write :: "os \<Rightarrow> path \<Rightarrow> string \<Rightarrow> fs \<Rightarrow> error + fs" where
  "file_write sys p data files =
     (if write_fails sys p data then Inl (OSError ''write'')
      else Inr (files(p \<mapsto> data)))"

text \<open>
  The argument of \<^verbatim>\<open>PdfConverter.__call__\<close>, annotated \<^verbatim>\<open>str | io.BytesIO\<close>.
  \<open>OtherInput\<close> is a value of any other type (the branch that raises \<^verbatim>\<open>TypeError\<close>);
  it carries the type's name.
\<close>

datatype file_input = StrInput path | BytesIOInput string | OtherInput string

text \<open>
  The program state seen by the context manager: the file system, and the rest of the
  state (\<open>'s\<close>, the converter object) that the body of the \<^verbatim>\<open>with\<close> statement
  may change.
\<close>

type_synonym 's world = "fs \<times> 's"

text \<open>
  The \<^verbatim>\<open>finally\<close> block of \<^verbatim>\<open>filepath_to_str\<close> (pdf.py, lines 207-209):
  \<^verbatim>\<open>
  if temp_file is not None and os.path.exists(temp_file.name):
      os.unlink(temp_file.name)
  \<close>
  There is no handler around \<^verbatim>\<open>os.unlink\<close>.
\<close>

definition cleanup :: "os \<Rightarrow> path option \<Rightarrow> fs \<Rightarrow> error + fs" where
  "cleanup sys temp_file files =
     (case temp_file of
        None \<Rightarrow> Inr files
      | Some name \<Rightarrow>
          if os_path_exists files name then os_unlink sys name files else Inr files)"

text \<open>
  Python's \<^verbatim>\<open>try: ... finally: ...\<close>: the block runs on every exit of the body; an
  exception raised inside it replaces the body's result or exception.
\<close>

definition try_finally ::
  "(error + 'a) \<times> 's world \<Rightarrow> (fs \<Rightarrow> error + fs) \<Rightarrow> (error + 'a) \<times> 's world" where
  "try_finally outcome block =
     (case outcome of
        (res, files, st) \<Rightarrow>
          (case block files of
             Inl e \<Rightarrow> (Inl e, files, st)
           | Inr files' \<Rightarrow> (res, files', st)))"

text \<open>
  \<^verbatim>\<open>filepath_to_str\<close> (pdf.py, lines 188-209) together with the body of the
  \<^verbatim>\<open>with\<close> statement that uses it. The body runs where the generator yields; an
  exception of the body is thrown into the generator at the \<^verbatim>\<open>yield\<close>, so the
  \<^verbatim>\<open>finally\<close> block runs for it as well.
\<close>

definition filepath_to_str ::
  "os \<Rightarrow> file_input \<Rightarrow> (path \<Rightarrow> 's world \<Rightarrow> (error + 'a) \<times> 's world) \<Rightarrow> 's world
     \<Rightarrow> (error + 'a) \<times> 's world" where
  "filepath_to_str sys file_input body w =
     (case file_input of
        StrInput p \<Rightarrow> try_finally (body p w) (cleanup sys None)
      | _ \<Rightarrow>
          (case NamedTemporaryFile sys (fst w) of
             Inl e \<Rightarrow> try_finally (Inl e, w) (cleanup sys None)
           | Inr (name, files1) \<Rightarrow>
               try_finally
                 (case file_input of
                    BytesIOInput data \<Rightarrow>
                      (case file_write sys name data files1 of
                         Inl e \<Rightarrow> (Inl e, files1, snd w)
                       | Inr files2 \<Rightarrow> body name (files2, snd w))
                  | _ \<Rightarrow>
                      (Inl (TypeError ''Expected str or BytesIO''), files1, snd w))
                 (cleanup sys (Some name))))"

text \<open>
  The \<^verbatim>\<open>finally\<close> block of \<^verbatim>\<open>parse_pdf\<close> (main.py, lines 117-123):
  \<^verbatim>\<open>
  if tmp_path and os.path.exists(tmp_path):
      try:
          os.unlink(tmp_path)
      except OSError:
          pass  # Ignore cleanup errors
  \<close>
  \<open>tmp_path\<close> is \<open>None\<close> until the download has been saved.
\<close>

definition parse_pdf_cleanup :: "os \<Rightarrow> path option \<Rightarrow> fs \<Rightarrow> error + fs" where
  "parse_pdf_cleanup sys tmp_path files =
     (case tmp_path of
        None \<Rightarrow> Inr files
      | Some p \<Rightarrow>
          if p \<noteq> [] \<and> os_path_exists files p then
            (case os_unlink sys p files of
               Inl e \<Rightarrow> if is_OSError e then Inr files else Inl e
             | Inr files' \<Rightarrow> Inr files')
          else Inr files)"

section \<open>The renderer selector\<close>

text \<open>
  \<^verbatim>\<open>str.split(sep)\<close> and \<^verbatim>\<open>str.strip()\<close>. A \<open>char\<close> stands for a code point
  below 256, so a \<open>string\<close> is a Python string over that range. \<open>is_space\<close> holds
  every code point of the range for which \<^verbatim>\<open>str.isspace\<close> is true: U+0009 to U+000D,
  U+001C to U+001F, U+0020, U+0085 and U+00A0.
\<close>

fun split_on :: "char \<Rightarrow> string \<Rightarrow> string list" where
  "split_on c [] = [[]]"
| "split_on c (x # xs) =
     (if x = c then [] # split_on c xs
      else (case split_on c xs of
              [] \<Rightarrow> [[x]]
            | w # ws \<Rightarrow> (x # w) # ws))"

definition is_space :: "char \<Rightarrow> bool" where
  "is_space ch =
     (ch \<in> set [CHR 0x09, CHR 0x0A, CHR 0x0B, CHR 0x0C, CHR 0x0D,
                 CHR 0x1C, CHR 0x1D, CHR 0x1E, CHR 0x1F, CHR 0x20, CHR 0x85, CHR 0xA0])"

definition strip :: "string \<Rightarrow> string" where
  "strip s = rev (dropWhile is_space (rev (dropWhile is_space s)))"

text \<open>A list comprehension over calls that may raise: the first exception ends it.\<close>

fun sequence :: "(error + 'a) list \<Rightarrow> error + 'a list" where
  "sequence [] = Inr []"
| "sequence (r # rs) =
     (case r of
        Inl e \<Rightarrow> Inl e
      | Inr v \<Rightarrow> (case sequence rs of Inl e \<Rightarrow> Inl e | Inr vs \<Rightarrow> Inr (v # vs)))"

text \<open>\<^verbatim>\<open>'+' in renderer\<close>.\<close>

fun contains_plus :: "pyval \<Rightarrow> error + bool" where
  "contains_plus (PyStr s) = Inr (CHR ''+'' \<in> set s)"
| "contains_plus (PyList xs) = Inr (PyStr ''+'' \<in> set xs)"
| "contains_plus v = Inl (TypeError ''argument is not iterable'')"

text \<open>
  \<^verbatim>\<open>renderer2cls\<close> (pdf.py, lines 61-73):
  \<^verbatim>\<open>
  def renderer2cls(name: str) -> Optional[str|List[str]]:
      if renderer == 'pageMarkdown':
          renderer = 'marker.renderers.page_markdown.PageMarkdownRenderer'
      elif renderer == 'markdown':
          renderer = 'marker.renderers.markdown.MarkdownRenderer'
      elif renderer == 'chunks':
          renderer = 'marker.renderers.chunk.ChunkRenderer'
      elif '+' in renderer:
          renderers = renderer.split('+')
          renderers = [r.strip() for r in renderers]
          renderers = [renderer2cls(r) for r in renderers]
      else:
          renderer = None
  \<close>
  The parameter is \<open>name\<close>; the body reads and assigns \<open>renderer\<close>, which the
  assignments make a local variable of the function. The first argument of
  \<open>renderer2cls_from\<close> is the binding of that local variable when the body starts:
  \<open>None\<close> is unbound, and reading an unbound local raises \<^verbatim>\<open>UnboundLocalError\<close>.
  The function has no \<^verbatim>\<open>return\<close> statement, so a body that runs to its end returns
  Python's \<^verbatim>\<open>None\<close>, whatever was assigned.
\<close>

function renderer2cls_from :: "pyval option \<Rightarrow> pyval \<Rightarrow> error + pyval" where
  "renderer2cls_from None name = Inl (UnboundLocalError ''renderer'')"
| "renderer2cls_from (Some renderer) name =
     (if renderer = PyStr ''pageMarkdown'' then
        (let renderer = PyStr ''marker.renderers.page_markdown.PageMarkdownRenderer''
         in Inr PyNone)
      else if renderer = PyStr ''markdown'' then
        (let renderer = PyStr ''marker.renderers.markdown.MarkdownRenderer''
         in Inr PyNone)
      else if renderer = PyStr ''chunks'' then
        (let renderer = PyStr ''marker.renderers.chunk.ChunkRenderer''
         in Inr PyNone)
      else
        (case contains_plus renderer of
           Inl e \<Rightarrow> Inl e
         | Inr True \<Rightarrow>
             (case renderer of
                PyStr s \<Rightarrow>
                  (let renderers = split_on CHR ''+'' s;
                       renderers = map strip renderers
                   in case sequence (map (\<lambda>r. renderer2cls_from None (PyStr r)) renderers) of
                        Inl e \<Rightarrow> Inl e
                      | Inr renderers \<Rightarrow> Inr PyNone)
              | _ \<Rightarrow> Inl (AttributeError ''split''))
         | Inr False \<Rightarrow>
             (let renderer = PyNone in Inr PyNone)))"
  by pat_completeness auto
termination
  by (relation "measure (\<lambda>(b, name). case b of None \<Rightarrow> 0 | Some v \<Rightarrow> 1)") auto

text \<open>A call binds the parameter \<open>name\<close> only; the local \<open>renderer\<close> starts unbound.\<close>

definition renderer2cls :: "pyval \<Rightarrow> error + pyval" where
  "renderer2cls name = renderer2cls_from None name"

section \<open>Documents, classes and collaborators\<close>

text \<open>
  Modelled from the spec: the document classes (\<^verbatim>\<open>marker.schema\<close>) are imported by
  pdf.py and not part of its sources. The specification's data model gives a Document an
  ordered sequence of Pages; a Page has its Blocks, a structure list (the ordered
  identities of its child blocks) and a flag that excludes it from output. \<open>'id\<close> is
  the type of block identities.
\<close>

record 'id block =
  block_id :: 'id
  block_type :: string

record 'id page =
  page_id :: nat
  ignore_for_output :: bool
  "structure" :: "'id list"
  children :: "'id block list"

record 'id document =
  pages :: "'id page list"

text \<open>A class object: the module that defines it and its \<^verbatim>\<open>__name__\<close>.\<close>

datatype cls = Cls (cls_module: string) (cls_name: string)

definition PageMarkdownRenderer :: cls where
  "PageMarkdownRenderer = Cls ''marker.renderers.page_markdown'' ''PageMarkdownRenderer''"

definition ChunkRenderer :: cls where
  "ChunkRenderer = Cls ''marker.renderers.chunk'' ''ChunkRenderer''"

definition LayoutBuilder :: cls where
  "LayoutBuilder = Cls ''marker.builders.layout'' ''LayoutBuilder''"

definition LineBuilder :: cls where
  "LineBuilder = Cls ''marker.builders.line'' ''LineBuilder''"

definition OcrBuilder :: cls where
  "OcrBuilder = Cls ''marker.builders.ocr'' ''OcrBuilder''"

definition StructureBuilder :: cls where
  "StructureBuilder = Cls ''marker.builders.structure'' ''StructureBuilder''"

text \<open>\<^verbatim>\<open>default_llm_service: BaseService = GoogleGeminiService\<close> (pdf.py, line 123).\<close>

definition default_llm_service :: cls where
  "default_llm_service = Cls ''marker.services.gemini'' ''GoogleGeminiService''"

text \<open>\<^verbatim>\<open>default_processors\<close> (pdf.py, lines 93-122), each class with the module it is imported from.\<close>

definition default_processors :: "cls list" where
  "default_processors =
     [Cls ''marker.processors.order'' ''OrderProcessor'',
      Cls ''marker.processors.block_relabel'' ''BlockRelabelProcessor'',
      Cls ''marker.processors.line_merge'' ''LineMergeProcessor'',
      Cls ''marker.processors.blockquote'' ''BlockquoteProcessor'',
      Cls ''marker.processors.code'' ''CodeProcessor'',
      Cls ''marker.processors.document_toc'' ''DocumentTOCProcessor'',
      Cls ''marker.processors.equation'' ''EquationProcessor'',
      Cls ''marker.processors.footnote'' ''FootnoteProcessor'',
      Cls ''marker.processors.ignoretext'' ''IgnoreTextProcessor'',
      Cls ''marker.processors.line_numbers'' ''LineNumbersProcessor'',
      Cls ''marker.processors.list'' ''ListProcessor'',
      Cls ''marker.processors.page_header'' ''PageHeaderProcessor'',
      Cls ''marker.processors.sectionheader'' ''SectionHeaderProcessor'',
      Cls ''marker.processors.table'' ''TableProcessor'',
      Cls ''marker.processors.llm.llm_table'' ''LLMTableProcessor'',
      Cls ''marker.processors.llm.llm_table_merge'' ''LLMTableMergeProcessor'',
      Cls ''marker.processors.llm.llm_form'' ''LLMFormProcessor'',
      Cls ''marker.processors.text'' ''TextProcessor'',
      Cls ''marker.processors.llm.llm_complex'' ''LLMComplexRegionProcessor'',
      Cls ''marker.processors.llm.llm_image_description'' ''LLMImageDescriptionProcessor'',
      Cls ''marker.processors.llm.llm_equation'' ''LLMEquationProcessor'',
      Cls ''marker.processors.llm.llm_handwriting'' ''LLMHandwritingProcessor'',
      Cls ''marker.processors.llm.llm_mathblock'' ''LLMMathBlockProcessor'',
      Cls ''marker.processors.llm.llm_sectionheader'' ''LLMSectionHeaderProcessor'',
      Cls ''marker.processors.llm.llm_page_correction'' ''LLMPageCorrectionProcessor'',
      Cls ''marker.processors.reference'' ''ReferenceProcessor'',
      Cls ''marker.processors.blank_page'' ''BlankPageProcessor'',
      Cls ''marker.processors.debug'' ''DebugProcessor'']"

text \<open>
  The LLM-assisted processors are the classes of the package
  \<^verbatim>\<open>marker.processors.llm\<close>; every other processor is a structural one.
\<close>

definition llm_assisted :: "cls \<Rightarrow> bool" where
  "llm_assisted c = (take 21 (cls_module c) = ''marker.processors.llm'')"

text \<open>
  What \<^verbatim>\<open>self.renderer\<close>, or the argument of \<^verbatim>\<open>resolve_dependencies\<close>, can be:
  a class, a list of classes, or a value that is neither.
\<close>

datatype target = Class cls | ClassList "cls list" | NotAClass pyval

text \<open>
  A value of the shared artifact bag: a plain value (\<^verbatim>\<open>None\<close>, a loaded model) or an
  instance produced by \<^verbatim>\<open>resolve_dependencies\<close>.
\<close>

datatype 'i artifact = Plain pyval | Instance 'i

type_synonym config = "string \<rightharpoonup> pyval"
type_synonym 'i bag = "string \<rightharpoonup> 'i artifact"
type_synonym images = "string \<rightharpoonup> pyval"

text \<open>
  The collaborators the converter calls and whose code is outside the repository's
  sources: \<^verbatim>\<open>BaseConverter\<close> (its constructor, \<^verbatim>\<open>resolve_dependencies\<close>,
  \<^verbatim>\<open>initialize_processors\<close>), \<^verbatim>\<open>strings_to_classes\<close>,
  \<^verbatim>\<open>register_block_class\<close>, \<^verbatim>\<open>provider_from_filepath\<close>, the provider, the
  builders, the processors and the renderers, \<^verbatim>\<open>cleanup_text\<close>,
  \<^verbatim>\<open>issubclass(_, BaseRenderer)\<close> and \<^verbatim>\<open>str\<close> on a block identity. Each is a
  parameter; each call that can raise returns a sum. \<open>'i\<close> is the type of resolved
  instances. A processor mutates the document in place: its call returns the document
  as it left it. \<^verbatim>\<open>override_map\<close> is the class attribute of that name (pdf.py,
  line 88).
\<close>

record ('id, 'i) collab =
  base_init :: "config \<Rightarrow> error option"
  override_map :: "(string \<times> cls) list"
  register_block_class :: "string \<Rightarrow> cls \<Rightarrow> error option"
  strings_to_classes :: "pyval \<Rightarrow> error + cls list"
  resolve_dependencies :: "'i bag \<Rightarrow> config \<Rightarrow> target \<Rightarrow> error + 'i"
  initialize_processors :: "'i bag \<Rightarrow> config \<Rightarrow> cls list \<Rightarrow> error + 'i list"
  instance_class :: "'i \<Rightarrow> cls"
  provider_from_filepath :: "fs \<Rightarrow> path \<Rightarrow> error + cls"
  make_provider :: "cls \<Rightarrow> fs \<Rightarrow> path \<Rightarrow> config \<Rightarrow> error + 'i"
  document_builder ::
    "config \<Rightarrow> string list \<Rightarrow> 'i \<Rightarrow> 'i \<Rightarrow> 'i \<Rightarrow> 'i \<Rightarrow> error + 'id document"
  call_structure_builder :: "'i \<Rightarrow> 'id document \<Rightarrow> error + 'id document"
  call_processor :: "'i \<Rightarrow> 'id document \<Rightarrow> error + 'id document"
  call_renderer :: "'i \<Rightarrow> 'id document \<Rightarrow> error + (pyval \<times> images \<times> pyval)"
  cleanup_text :: "string \<Rightarrow> string"
  is_renderer_class :: "cls \<Rightarrow> bool"
  str_identity :: "'id \<Rightarrow> string"

text \<open>Sequencing of calls that may raise.\<close>

definition and_then :: "error + 'a \<Rightarrow> ('a \<Rightarrow> error + 'b) \<Rightarrow> error + 'b" where
  "and_then r f = (case r of Inl e \<Rightarrow> Inl e | Inr v \<Rightarrow> f v)"

section \<open>The converter\<close>

text \<open>The attributes of a \<^verbatim>\<open>PdfConverter\<close> object.\<close>

record 'i pdf_converter =
  config :: config
  artifact_dict :: "'i bag"
  ignore_blocks :: "string list"
  llm_service :: "'i artifact"
  renderer :: target
  processor_list :: "'i list"
  layout_builder_class :: cls
  page_count :: "nat option"

text \<open>\<^verbatim>\<open>dict.get(key, default)\<close>.\<close>

definition dict_get :: "('k \<rightharpoonup> 'v) \<Rightarrow> 'k \<Rightarrow> 'v \<Rightarrow> 'v" where
  "dict_get d k dflt = (case d k of None \<Rightarrow> dflt | Some v \<Rightarrow> v)"

subsection \<open>Construction\<close>

text \<open>
  What the constructor does to the caller's artifact bag and which resolutions it asks
  for, in program order.
\<close>

datatype 'i event =
    ServiceResolved cls
  | BagWrite string "'i artifact"
  | ProcessorsInitialized "cls list"

text \<open>
  \<^verbatim>\<open>for block_type, override_block_type in self.override_map.items():
      register_block_class(block_type, override_block_type)\<close> (lines 154-155).
\<close>

fun register_all :: "(string \<Rightarrow> cls \<Rightarrow> error option) \<Rightarrow> (string \<times> cls) list \<Rightarrow> error option" where
  "register_all reg [] = None"
| "register_all reg ((btype, override) # rest) =
     (case reg btype override of
        Some e \<Rightarrow> Some e
      | None \<Rightarrow> register_all reg rest)"

text \<open>
  Lines 143-165 of \<^verbatim>\<open>__init__\<close>: the base constructor, the ignore-block list, the
  block-class overrides, the processor classes and the renderer classes.
  \<open>renderer\<close> is the value \<^verbatim>\<open>renderer2cls\<close> returned (line 133).
\<close>

definition init_select ::
  "('id, 'i) collab \<Rightarrow> pyval \<Rightarrow> string list option \<Rightarrow> config
     \<Rightarrow> error + (string list \<times> cls list \<times> cls list)" where
  "init_select env renderer' processor_list' config' =
     (case base_init env config' of
        Some e \<Rightarrow> Inl e
      | None \<Rightarrow>
          (let ignore_blocks' =
                 (if truthy (dict_get config' ''ignore_TOC'' (PyBool False))
                  then [''TableOfContents''] else [])
           in case register_all (register_block_class env) (override_map env) of
                Some e \<Rightarrow> Inl e
              | None \<Rightarrow>
                  and_then
                    (case processor_list' of
                       Some names \<Rightarrow> strings_to_classes env (PyList (map PyStr names))
                     | None \<Rightarrow> Inr default_processors)
                    (\<lambda>processor_list'.
                  and_then
                    (if truthy renderer' then
                       strings_to_classes env
                         (case renderer' of PyStr s \<Rightarrow> PyList [renderer'] | _ \<Rightarrow> renderer')
                     else Inr [PageMarkdownRenderer, ChunkRenderer])
                    (\<lambda>renderer'.
                  Inr (ignore_blocks', processor_list', renderer')))))"

text \<open>
  Lines 170-174: \<open>llm_service\<close> is the value read from the configuration at line 138.
  \<^verbatim>\<open>
  if llm_service:
      llm_service_cls = strings_to_classes([llm_service])[0]
      llm_service = self.resolve_dependencies(llm_service_cls)
  elif config.get("use_llm", False):
      llm_service = self.resolve_dependencies(self.default_llm_service)
  \<close>
\<close>

definition init_llm_service ::
  "('id, 'i) collab \<Rightarrow> 'i bag \<Rightarrow> config \<Rightarrow> pyval \<Rightarrow> (error + 'i artifact) \<times> 'i event list" where
  "init_llm_service env artifact_dict' config' llm_service' =
     (if truthy llm_service' then
        (case strings_to_classes env (PyList [llm_service']) of
           Inl e \<Rightarrow> (Inl e, [])
         | Inr [] \<Rightarrow> (Inl (IndexError ''list index out of range''), [])
         | Inr (llm_service_cls # _) \<Rightarrow>
             (case resolve_dependencies env artifact_dict' config' (Class llm_service_cls) of
                Inl e \<Rightarrow> (Inl e, [ServiceResolved llm_service_cls])
              | Inr inst \<Rightarrow> (Inr (Instance inst), [ServiceResolved llm_service_cls])))
      else if truthy (dict_get config' ''use_llm'' (PyBool False)) then
        (case resolve_dependencies env artifact_dict' config' (Class default_llm_service) of
           Inl e \<Rightarrow> (Inl e, [ServiceResolved default_llm_service])
         | Inr inst \<Rightarrow> (Inr (Instance inst), [ServiceResolved default_llm_service]))
      else (Inr (Plain llm_service'), []))"

text \<open>
  Lines 134-186 of \<^verbatim>\<open>__init__\<close>, from the statement after the call of
  \<^verbatim>\<open>renderer2cls\<close> on. The caller's configuration mapping and artifact bag are
  objects the constructor changes in place (\<^verbatim>\<open>config.pop\<close>, line 177), so their
  final contents are returned next to the result, on failure as well, with the events
  in program order. \<^verbatim>\<open>super().__init__(config)\<close> is the only statement that can
  set \<^verbatim>\<open>self.config\<close>, which \<^verbatim>\<open>build_document\<close> reads: the attribute is the
  mapping passed to it.
\<close>

definition init_after_parse ::
  "('id, 'i) collab \<Rightarrow> pyval \<Rightarrow> 'i bag \<Rightarrow> string list option \<Rightarrow> config
     \<Rightarrow> (error + 'i pdf_converter) \<times> config \<times> 'i bag \<times> 'i event list" where
  "init_after_parse env renderer' artifact_dict' processor_list' config' =
     (let config' = config'(''renderer'' := None);
          llm_service' = dict_get config' ''llm_service'' PyNone;
          config' = config'(''llm_service'' := None)
      in case init_select env renderer' processor_list' config' of
           Inl e \<Rightarrow> (Inl e, config', artifact_dict', [])
         | Inr (ignore_blocks', processor_cls, renderer_cls) \<Rightarrow>
             (case init_llm_service env artifact_dict' config' llm_service' of
                (Inl e, ev) \<Rightarrow> (Inl e, config', artifact_dict', ev)
              | (Inr llm_service', ev) \<Rightarrow>
                  (let artifact_dict' = artifact_dict'(''llm_service'' \<mapsto> llm_service');
                       ev = ev @ [BagWrite ''llm_service'' llm_service',
                                  ProcessorsInitialized processor_cls]
                   in case initialize_processors env artifact_dict' config' processor_cls of
                        Inl e \<Rightarrow> (Inl e, config', artifact_dict', ev)
                      | Inr processor_list' \<Rightarrow>
                          (Inr \<lparr>config = config',
                                artifact_dict = artifact_dict',
                                ignore_blocks = ignore_blocks',
                                llm_service = llm_service',
                                renderer = ClassList renderer_cls,
                                processor_list = processor_list',
                                layout_builder_class = LayoutBuilder,
                                page_count = None\<rparr>,
                           config', artifact_dict', ev))))"

text \<open>
  \<^verbatim>\<open>PdfConverter.__init__\<close> (lines 125-186). \<open>config\<close> defaults to \<^verbatim>\<open>None\<close>, on
  which \<^verbatim>\<open>config.get\<close> (line 132) raises \<^verbatim>\<open>AttributeError\<close>.
\<close>

definition PdfConverter_init ::
  "('id, 'i) collab \<Rightarrow> 'i bag \<Rightarrow> string list option \<Rightarrow> config option
     \<Rightarrow> (error + 'i pdf_converter) \<times> config option \<times> 'i bag \<times> 'i event list" where
  "PdfConverter_init env artifact_dict' processor_list' config' =
     (case config' of
        None \<Rightarrow> (Inl (AttributeError ''get''), None, artifact_dict', [])
      | Some config' \<Rightarrow>
          (let renderer' = dict_get config' ''renderer'' PyNone
           in case renderer2cls renderer' of
                Inl e \<Rightarrow> (Inl e, Some config', artifact_dict', [])
              | Inr renderer' \<Rightarrow>
                  (case init_after_parse env renderer' artifact_dict' processor_list' config' of
                     (res, config', artifact_dict', ev) \<Rightarrow>
                       (res, Some config', artifact_dict', ev))))"

subsection \<open>Building the document\<close>

text \<open>\<^verbatim>\<open>for processor in self.processor_list: processor(document)\<close> (lines 223-224).\<close>

fun run_processors ::
  "('id, 'i) collab \<Rightarrow> 'i list \<Rightarrow> 'id document \<Rightarrow> error + 'id document" where
  "run_processors env [] document = Inr document"
| "run_processors env (processor # rest) document =
     (case call_processor env processor document of
        Inl e \<Rightarrow> Inl e
      | Inr document \<Rightarrow> run_processors env rest document)"

text \<open>\<^verbatim>\<open>build_document\<close> (lines 211-226).\<close>

definition build_document ::
  "('id, 'i) collab \<Rightarrow> 'i pdf_converter \<Rightarrow> fs \<Rightarrow> path \<Rightarrow> error + 'id document" where
  "build_document env self files filepath =
     and_then (provider_from_filepath env files filepath) (\<lambda>provider_cls.
     and_then (resolve_dependencies env (artifact_dict self) (config self)
                 (Class (layout_builder_class self))) (\<lambda>layout_builder.
     and_then (resolve_dependencies env (artifact_dict self) (config self)
                 (Class LineBuilder)) (\<lambda>line_builder.
     and_then (resolve_dependencies env (artifact_dict self) (config self)
                 (Class OcrBuilder)) (\<lambda>ocr_builder.
     and_then (make_provider env provider_cls files filepath (config self)) (\<lambda>provider.
     and_then (document_builder env (config self) (ignore_blocks self)
                 provider layout_builder line_builder ocr_builder) (\<lambda>document.
     and_then (resolve_dependencies env (artifact_dict self) (config self)
                 (Class StructureBuilder)) (\<lambda>structure_builder_cls.
     and_then (call_structure_builder env structure_builder_cls document) (\<lambda>document.
     run_processors env (processor_list self) document))))))))"

subsection \<open>Rendering\<close>

text \<open>
  \<^verbatim>\<open>render\<close> (lines 228-242). A class whose name is none of the three falls off the end
  of the function, which then returns \<^verbatim>\<open>None\<close>.
\<close>

definition render ::
  "('id, 'i) collab \<Rightarrow> 'i pdf_converter \<Rightarrow> cls \<Rightarrow> 'id document
     \<Rightarrow> error + (string \<times> pyval \<times> images \<times> pyval) option" where
  "render env self renderer_cls document =
     and_then (resolve_dependencies env (artifact_dict self) (config self) (Class renderer_cls))
       (\<lambda>renderer'.
          if cls_name renderer_cls = ''PageMarkdownRenderer'' then
            and_then (call_renderer env renderer' document)
              (\<lambda>(page_output, images, metadata).
                 Inr (Some (''page_renders'', page_output, images, metadata)))
          else if cls_name renderer_cls = ''ChunkRenderer'' then
            and_then (call_renderer env renderer' document)
              (\<lambda>(json_output, images, metadata).
                 Inr (Some (''chunks'', json_output, images, metadata)))
          else if cls_name renderer_cls = ''MarkdownRenderer'' then
            and_then (call_renderer env renderer' document)
              (\<lambda>(rendered, images, metadata).
                 (let rendered = (case rendered of
                                    PyStr text \<Rightarrow> PyStr (cleanup_text env text)
                                  | _ \<Rightarrow> rendered)
                  in Inr (Some (''markdown'', rendered, images, metadata))))
          else Inr None)"

text \<open>The values of the dictionary \<^verbatim>\<open>out_render\<close>.\<close>

datatype outval =
    PageStructure "nat \<rightharpoonup> string list"
  | Rendered pyval
  | Images images
  | Metadata pyval

type_synonym out_render = "string \<rightharpoonup> outval"

text \<open>
  Lines 246-251: the \<^verbatim>\<open>page_structure\<close> entry, filled page by page and keyed by
  \<^verbatim>\<open>page_id\<close>.
\<close>

fun page_structure_loop ::
  "('id \<Rightarrow> string) \<Rightarrow> 'id page list \<Rightarrow> (nat \<rightharpoonup> string list) \<Rightarrow> (nat \<rightharpoonup> string list)" where
  "page_structure_loop str [] entry = entry"
| "page_structure_loop str (doc_child # rest) entry =
     page_structure_loop str rest
       (if ignore_for_output doc_child then entry(page_id doc_child \<mapsto> [])
        else entry(page_id doc_child \<mapsto> map str (structure doc_child)))"

definition page_structure :: "('id \<Rightarrow> string) \<Rightarrow> 'id document \<Rightarrow> (nat \<rightharpoonup> string list)" where
  "page_structure str document = page_structure_loop str (pages document) Map.empty"

text \<open>
  Lines 254-257, the loop over a list of renderers. The last argument is the binding of
  the local \<open>metadata\<close>, unbound (\<open>None\<close>) before the first iteration. Unpacking
  the \<^verbatim>\<open>None\<close> that \<^verbatim>\<open>render\<close> returns for an unknown class raises
  \<^verbatim>\<open>TypeError\<close>.
\<close>

fun render_loop ::
  "('id, 'i) collab \<Rightarrow> 'i pdf_converter \<Rightarrow> 'id document \<Rightarrow> cls list \<Rightarrow> out_render
     \<Rightarrow> pyval option \<Rightarrow> error + (out_render \<times> pyval option)" where
  "render_loop env self document [] out_render metadata = Inr (out_render, metadata)"
| "render_loop env self document (renderer_cls # rest) out_render metadata =
     (case render env self renderer_cls document of
        Inl e \<Rightarrow> Inl e
      | Inr None \<Rightarrow> Inl (TypeError ''cannot unpack non-iterable NoneType object'')
      | Inr (Some (key, rendered, images, metadata)) \<Rightarrow>
          render_loop env self document rest
            (out_render(key \<mapsto> Rendered rendered, ''images'' \<mapsto> Images images))
            (Some metadata))"

text \<open>
  \<^verbatim>\<open>render_document\<close> (lines 244-269). After the loop, line 258 reads \<open>metadata\<close>,
  which is unbound when the list was empty. \<^verbatim>\<open>issubclass\<close> raises
  \<^verbatim>\<open>TypeError\<close> on a first argument that is not a class.
\<close>

definition render_document ::
  "('id, 'i) collab \<Rightarrow> 'i pdf_converter \<Rightarrow> 'id document \<Rightarrow> error + out_render" where
  "render_document env self document =
     (let out_render =
            [''page_structure'' \<mapsto> PageStructure (page_structure (str_identity env) document)]
      in case renderer self of
           ClassList renderers \<Rightarrow>
             (case render_loop env self document renderers out_render None of
                Inl e \<Rightarrow> Inl e
              | Inr (out_render, None) \<Rightarrow> Inl (UnboundLocalError ''metadata'')
              | Inr (out_render, Some metadata) \<Rightarrow>
                  Inr (out_render(''metadata'' \<mapsto> Metadata metadata)))
         | Class renderer_cls \<Rightarrow>
             if is_renderer_class env renderer_cls then
               (case render env self renderer_cls document of
                  Inl e \<Rightarrow> Inl e
                | Inr None \<Rightarrow> Inl (TypeError ''cannot unpack non-iterable NoneType object'')
                | Inr (Some (key, rendered, images, metadata)) \<Rightarrow>
                    Inr (out_render(key \<mapsto> Rendered rendered,
                                    ''metadata'' \<mapsto> Metadata metadata,
                                    ''images'' \<mapsto> Images images)))
             else Inl (ValueError
                    ''Renderer must be a BaseRenderer subclass or a list of BaseRenderer subclasses.'')
         | NotAClass v \<Rightarrow> Inl (TypeError ''issubclass() arg 1 must be a class''))"

subsection \<open>The conversion call\<close>

text \<open>
  The body of the \<^verbatim>\<open>with\<close> statement of \<^verbatim>\<open>__call__\<close> (lines 273-276). It resolves
  \<^verbatim>\<open>self.renderer\<close> as it is and calls the result on the document;
  \<^verbatim>\<open>render_document\<close> is not called.
\<close>

definition call_body ::
  "('id, 'i) collab \<Rightarrow> path \<Rightarrow> 'i pdf_converter world
     \<Rightarrow> (error + (pyval \<times> images \<times> pyval)) \<times> 'i pdf_converter world" where
  "call_body env temp_path w =
     (case w of
        (files, self) \<Rightarrow>
          (case build_document env self files temp_path of
             Inl e \<Rightarrow> (Inl e, files, self)
           | Inr document \<Rightarrow>
               (let self = self\<lparr>page_count := Some (length (pages document))\<rparr>
                in case resolve_dependencies env (artifact_dict self) (config self)
                          (renderer self) of
                     Inl e \<Rightarrow> (Inl e, files, self)
                   | Inr renderer' \<Rightarrow> (call_renderer env renderer' document, files, self))))"

text \<open>\<^verbatim>\<open>PdfConverter.__call__\<close> (lines 271-277).\<close>

definition PdfConverter_call ::
  "('id, 'i) collab \<Rightarrow> os \<Rightarrow> 'i pdf_converter \<Rightarrow> file_input \<Rightarrow> fs
     \<Rightarrow> (error + (pyval \<times> images \<times> pyval)) \<times> 'i pdf_converter world" where
  "PdfConverter_call env sys self filepath files =
     filepath_to_str sys filepath (call_body env) (files, self)"

section \<open>Sample inputs\<close>

text \<open>An operating system that grants every request, and one that refuses to remove files.\<close>

definition os0 :: os where
  "os0 = \<lparr>mktemp = (\<lambda>files. Some ''/tmp/tmp0.pdf''),
          write_fails = (\<lambda>p d. False),
          unlink_denied = (\<lambda>p. False)\<rparr>"

definition os_denied :: os where
  "os_denied = os0\<lparr>unlink_denied := (\<lambda>p. True)\<rparr>"

text \<open>A document of one page with one block.\<close>

definition sample_page :: "string page" where
  "sample_page =
     \<lparr>page_id = 0, ignore_for_output = False, structure = [''/page/0/Text/0''],
      children = [\<lparr>block_id = ''/page/0/Text/0'', block_type = ''Text''\<rparr>]\<rparr>"

definition sample_document :: "string document" where
  "sample_document = \<lparr>pages = [sample_page]\<rparr>"

text \<open>
  Collaborators that all succeed: an instance is represented by its class, a block
  identity by its printed form, every builder returns \<open>sample_document\<close>, every
  processor leaves the document as it is, and a renderer returns its class name as
  payload and metadata. Resolution takes a class; on a list of classes it raises.
\<close>

definition collab0 :: "(string, cls) collab" where
  "collab0 =
     \<lparr>base_init = (\<lambda>c. None),
      override_map = [],
      register_block_class = (\<lambda>b c. None),
      strings_to_classes =
        (\<lambda>v. case v of
               PyList names \<Rightarrow>
                 Inr (map (\<lambda>n. case n of PyStr s \<Rightarrow> Cls [] s | _ \<Rightarrow> Cls [] []) names)
             | _ \<Rightarrow> Inl (TypeError ''not iterable'')),
      resolve_dependencies =
        (\<lambda>b c t. case t of
                   Class k \<Rightarrow> Inr k
                 | _ \<Rightarrow> Inl (ValueError ''Cannot resolve dependency'')),
      initialize_processors = (\<lambda>b c ks. Inr ks),
      instance_class = (\<lambda>k. k),
      provider_from_filepath = (\<lambda>files p. Inr (Cls ''marker.providers.pdf'' ''PdfProvider'')),
      make_provider = (\<lambda>k files p c. Inr k),
      document_builder = (\<lambda>c ign provider layout line ocr. Inr sample_document),
      call_structure_builder = (\<lambda>k d. Inr d),
      call_processor = (\<lambda>k d. Inr d),
      call_renderer = (\<lambda>k d. Inr (PyStr (cls_name k), Map.empty, PyStr (cls_name k))),
      cleanup_text = (\<lambda>s. s),
      is_renderer_class = (\<lambda>k. True),
      str_identity = (\<lambda>i. i)\<rparr>"

text \<open>
  The converter object that lines 134-186 of the constructor build from the configuration
  \<open>sample_config\<close> with the default processors and renderers.
\<close>

definition sample_config :: config where
  "sample_config = [''use_llm'' \<mapsto> PyBool False, ''renderer'' \<mapsto> PyStr ''markdown'']"

definition sample_converter :: "cls pdf_converter" where
  "sample_converter =
     \<lparr>config = [''use_llm'' \<mapsto> PyBool False],
      artifact_dict = [''llm_service'' \<mapsto> Plain PyNone],
      ignore_blocks = [],
      llm_service = Plain PyNone,
      renderer = ClassList [PageMarkdownRenderer, ChunkRenderer],
      processor_list = default_processors,
      layout_builder_class = LayoutBuilder,
      page_count = None\<rparr>"

text \<open>Collaborators whose LLM-assisted processors all raise.\<close>

definition collab_llm_down :: "(string, cls) collab" where
  "collab_llm_down =
     collab0\<lparr>call_processor :=
       (\<lambda>k d. if llm_assisted k then Inl (StageError ''LLM service unavailable'') else Inr d)\<rparr>"

text \<open>Collaborators whose two default renderers return different image mappings.\<close>

definition collab_images :: "(string, cls) collab" where
  "collab_images =
     collab0\<lparr>call_renderer :=
       (\<lambda>k d. if cls_name k = ''PageMarkdownRenderer''
               then Inr (PyStr ''pages'', [''page_0_fig.png'' \<mapsto> PyObj ''img0''],
                         PyStr ''page metadata'')
               else Inr (PyStr ''chunks'', [''chunk_3_fig.png'' \<mapsto> PyObj ''img3''],
                         PyStr ''chunk metadata''))\<rparr>"

text \<open>A document whose only page is not flagged as ignored and has no blocks.\<close>

definition blank_page :: "string page" where
  "blank_page = \<lparr>page_id = 0, ignore_for_output = False, structure = [], children = []\<rparr>"

definition blank_document :: "string document" where
  "blank_document = \<lparr>pages = [blank_page]\<rparr>"

section \<open>Reading results\<close>

text \<open>The entry of an image key in the \<open>images\<close> mapping of a render result.\<close>

definition image_of :: "error + out_render \<Rightarrow> string \<Rightarrow> pyval option" where
  "image_of res k =
     (case res of
        Inl e \<Rightarrow> None
      | Inr out \<Rightarrow> (case out ''images'' of Some (Images im) \<Rightarrow> im k | _ \<Rightarrow> None))"

text \<open>
  Events of the constructor: a write to the artifact bag, and the resolution of pipeline
  stages. The constructor resolves the processors; builders and renderers are resolved
  during a conversion call. The LLM service is not a stage.
\<close>

fun is_bag_write :: "'i event \<Rightarrow> bool" where
  "is_bag_write (BagWrite k v) = True"
| "is_bag_write e = False"

fun is_stage_resolution :: "'i event \<Rightarrow> bool" where
  "is_stage_resolution (ProcessorsInitialized ks) = True"
| "is_stage_resolution e = False"

text \<open>
  A set of collaborators in which every stage is handed the configuration \<open>c\<close>,
  whatever the converter passes.
\<close>

definition with_config :: "config \<Rightarrow> ('id, 'i) collab \<Rightarrow> ('id, 'i) collab" where
  "with_config c env =
     env\<lparr>resolve_dependencies := (\<lambda>b c' t. resolve_dependencies env b c t),
         make_provider := (\<lambda>k files p c'. make_provider env k files p c),
         document_builder := (\<lambda>c'. document_builder env c)\<rparr>"

section \<open>The renderer selector: results\<close>

lemma sequence_all_raise:
  "sequence (map (\<lambda>r. Inl e) xs) = (if xs = [] then Inr [] else Inl e)"
  by (cases xs) simp_all

lemma contains_plus_error:
  "contains_plus v = Inl e \<Longrightarrow> e = TypeError ''argument is not iterable''"
  by (cases v) simp_all

text \<open>
  Every call of \<open>renderer2cls\<close> stops at its first line: the local \<open>renderer\<close> is
  read before anything was assigned to it.
\<close>

lemma renderer2cls_raises: "renderer2cls name = Inl (UnboundLocalError ''renderer'')"
  by (simp add: renderer2cls_def)

text \<open>
  Had the local been bound to the selector, a token that is no short name and holds no
  \<open>+\<close> would reach the final \<^verbatim>\<open>else\<close> branch, which assigns \<^verbatim>\<open>None\<close>, and the
  function would return \<^verbatim>\<open>None\<close>.
\<close>

lemma unknown_token_else_branch:
  "CHR ''+'' \<notin> set tok \<Longrightarrow> tok \<notin> {''pageMarkdown'', ''markdown'', ''chunks''} \<Longrightarrow>
   renderer2cls_from (Some (PyStr tok)) name = Inr PyNone"
  by simp



section \<open>The processor chain: results\<close>

lemma run_processors_append:
  "run_processors env (before @ rest) document =
     (case run_processors env before document of
        Inl e \<Rightarrow> Inl e
      | Inr document1 \<Rightarrow> run_processors env rest document1)"
  by (induction before arbitrary: document) (simp_all split: sum.splits)

text \<open>
  C3 (as amended). The processor chain has one failure policy: the exception of any
  processor, LLM-assisted or structural, ends the chain with that exception. The
  processors after the failing one are not run.
\<close>

theorem processor_failure_aborts:
  assumes "run_processors env before document = Inr document1"
      and "call_processor env processor document1 = Inl e"
  shows "run_processors env (before @ processor # rest) document = Inl e"
  using assms by (simp add: run_processors_append)

theorem processor_failure_aborts_witness:
  "run_processors collab_llm_down
     ([Cls ''marker.processors.order'' ''OrderProcessor'']
      @ Cls ''marker.processors.llm.llm_table'' ''LLMTableProcessor''
      # [Cls ''marker.processors.text'' ''TextProcessor''])
     sample_document = Inl (StageError ''LLM service unavailable'')"
proof -
  have h1: "run_processors collab_llm_down [Cls ''marker.processors.order'' ''OrderProcessor'']
              sample_document = Inr sample_document"
    by (simp add: collab_llm_down_def collab0_def llm_assisted_def)
  have h2: "call_processor collab_llm_down
              (Cls ''marker.processors.llm.llm_table'' ''LLMTableProcessor'') sample_document
            = Inl (StageError ''LLM service unavailable'')"
    by (simp add: collab_llm_down_def collab0_def llm_assisted_def)
  from processor_failure_aborts [OF h1 h2] show ?thesis .
qed

text \<open>
  C3 (counterexample). With the default processor list and an LLM service that is down,
  the first LLM-assisted processor (\<^verbatim>\<open>LLMTableProcessor\<close>) raises; the chain, the
  document build and the whole conversion call end with that exception.
\<close>

theorem llm_processor_failure_counterexample:
  "llm_assisted (instance_class collab_llm_down
       (Cls ''marker.processors.llm.llm_table'' ''LLMTableProcessor''))
   \<and> run_processors collab_llm_down default_processors sample_document
       = Inl (StageError ''LLM service unavailable'')
   \<and> build_document collab_llm_down sample_converter
         [''/data/in.pdf'' \<mapsto> ''%PDF''] ''/data/in.pdf''
       = Inl (StageError ''LLM service unavailable'')
   \<and> fst (PdfConverter_call collab_llm_down os0 sample_converter (StrInput ''/data/in.pdf'')
            [''/data/in.pdf'' \<mapsto> ''%PDF''])
       = Inl (StageError ''LLM service unavailable'')"
proof -
  have a: "llm_assisted (instance_class collab_llm_down
       (Cls ''marker.processors.llm.llm_table'' ''LLMTableProcessor''))"
    by (simp add: collab_llm_down_def collab0_def llm_assisted_def)
  have b: "run_processors collab_llm_down default_processors sample_document
       = Inl (StageError ''LLM service unavailable'')"
    by (simp add: collab_llm_down_def collab0_def llm_assisted_def default_processors_def)
  have c: "build_document collab_llm_down sample_converter
             [''/data/in.pdf'' \<mapsto> ''%PDF''] ''/data/in.pdf''
       = run_processors collab_llm_down default_processors sample_document"
    by (simp add: build_document_def and_then_def collab_llm_down_def collab0_def
        sample_converter_def)
  have d: "fst (PdfConverter_call collab_llm_down os0 sample_converter (StrInput ''/data/in.pdf'')
            [''/data/in.pdf'' \<mapsto> ''%PDF''])
       = Inl (StageError ''LLM service unavailable'')"
    by (simp add: PdfConverter_call_def filepath_to_str_def try_finally_def cleanup_def
        call_body_def c b)
  from a b c d show ?thesis by simp
qed

section \<open>The renderer fan-out: results\<close>

lemma render_key:
  "render env self renderer_cls document = Inr (Some (key, rendered, images, metadata)) \<Longrightarrow>
   key \<in> {''page_renders'', ''chunks'', ''markdown''}"
  by (auto simp: render_def and_then_def Let_def split: sum.splits if_splits prod.splits)

lemma render_loop_last:
  "render_loop env self document renderers out0 md0 = Inr (out, md) \<Longrightarrow> renderers \<noteq> [] \<Longrightarrow>
   \<exists>key rendered images metadata.
     render env self (last renderers) document = Inr (Some (key, rendered, images, metadata))
     \<and> out ''images'' = Some (Images images) \<and> md = Some metadata"
proof (induction renderers arbitrary: out0 md0)
  case Nil
  then show ?case by simp
next
  case (Cons c cs)
  from Cons.prems(1) obtain key rendered images metadata where
    r: "render env self c document = Inr (Some (key, rendered, images, metadata))"
    and loop: "render_loop env self document cs
                 (out0(key \<mapsto> Rendered rendered, ''images'' \<mapsto> Images images)) (Some metadata)
               = Inr (out, md)"
    by (auto split: sum.splits option.splits)
  show ?case
  proof (cases "cs = []")
    case True
    with r loop show ?thesis by auto
  next
    case False
    from Cons.IH [OF loop False] False show ?thesis by simp
  qed
qed

lemma render_loop_empty_metadata:
  "render_loop env self document renderers out0 None = Inr (out, Some md) \<Longrightarrow> renderers \<noteq> []"
  by (cases renderers) auto

text \<open>
  C4 (as amended). When a list of renderers is requested and rendering succeeds, the
  list is not empty and the \<^verbatim>\<open>images\<close> entry of the result is the images mapping
  of the last renderer of the list, as a whole: each renderer's mapping replaces the
  entry, nothing is merged. The \<^verbatim>\<open>metadata\<close> entry is the last renderer's metadata.
\<close>

theorem images_are_last_renderers:
  assumes "renderer self = ClassList renderers"
      and "render_document env self document = Inr out"
  shows "renderers \<noteq> []
         \<and> (\<exists>key rendered images metadata.
               render env self (last renderers) document
                 = Inr (Some (key, rendered, images, metadata))
               \<and> out ''images'' = Some (Images images)
               \<and> out ''metadata'' = Some (Metadata metadata))"
proof -
  from assms obtain out1 md where
    loop: "render_loop env self document renderers
             [''page_structure'' \<mapsto> PageStructure (page_structure (str_identity env) document)]
             None = Inr (out1, Some md)"
    and out: "out = out1(''metadata'' \<mapsto> Metadata md)"
    by (auto simp: render_document_def split: sum.splits option.splits)
  have ne: "renderers \<noteq> []" using loop by (rule render_loop_empty_metadata)
  from render_loop_last [OF loop ne] out ne show ?thesis by auto
qed

text \<open>The render result of the sample converter, evaluated.\<close>

lemma sample_render_document:
  "render_document collab_images sample_converter sample_document =
     Inr [''page_structure'' \<mapsto> PageStructure [0 \<mapsto> [''/page/0/Text/0'']],
          ''page_renders'' \<mapsto> Rendered (PyStr ''pages''),
          ''images'' \<mapsto> Images [''chunk_3_fig.png'' \<mapsto> PyObj ''img3''],
          ''chunks'' \<mapsto> Rendered (PyStr ''chunks''),
          ''metadata'' \<mapsto> Metadata (PyStr ''chunk metadata'')]"
  by (simp add: render_document_def render_def and_then_def collab_images_def collab0_def
      sample_converter_def sample_document_def sample_page_def page_structure_def
      PageMarkdownRenderer_def ChunkRenderer_def fun_upd_twist)

theorem images_are_last_renderers_witness:
  "render collab_images sample_converter ChunkRenderer sample_document
     = Inr (Some (''chunks'', PyStr ''chunks'', [''chunk_3_fig.png'' \<mapsto> PyObj ''img3''],
                  PyStr ''chunk metadata''))
   \<and> image_of (render_document collab_images sample_converter sample_document) ''chunk_3_fig.png''
     = Some (PyObj ''img3'')"
proof -
  have h1: "renderer sample_converter = ClassList [PageMarkdownRenderer, ChunkRenderer]"
    by (simp add: sample_converter_def)
  note h2 = sample_render_document
  have r: "render collab_images sample_converter ChunkRenderer sample_document
     = Inr (Some (''chunks'', PyStr ''chunks'', [''chunk_3_fig.png'' \<mapsto> PyObj ''img3''],
                  PyStr ''chunk metadata''))"
    by (simp add: render_def and_then_def collab_images_def collab0_def ChunkRenderer_def)
  from images_are_last_renderers [OF h1 h2] r show ?thesis
    by (simp add: image_of_def h2)
qed

text \<open>
  C4 (counterexample). The page renderer returns an image \<^verbatim>\<open>page_0_fig.png\<close>, the
  chunk renderer an image \<^verbatim>\<open>chunk_3_fig.png\<close>. The keys do not conflict, and a merge
  would hold both; the result has no entry for \<^verbatim>\<open>page_0_fig.png\<close>.
\<close>

theorem images_not_merged_counterexample:
  "render collab_images sample_converter PageMarkdownRenderer sample_document
     = Inr (Some (''page_renders'', PyStr ''pages'', [''page_0_fig.png'' \<mapsto> PyObj ''img0''],
                  PyStr ''page metadata''))
   \<and> render collab_images sample_converter ChunkRenderer sample_document
     = Inr (Some (''chunks'', PyStr ''chunks'', [''chunk_3_fig.png'' \<mapsto> PyObj ''img3''],
                  PyStr ''chunk metadata''))
   \<and> image_of (render_document collab_images sample_converter sample_document) ''page_0_fig.png''
     = None
   \<and> ([''page_0_fig.png'' \<mapsto> PyObj ''img0''] ++ [''chunk_3_fig.png'' \<mapsto> PyObj ''img3''])
       ''page_0_fig.png'' = Some (PyObj ''img0'')"
proof -
  have a: "render collab_images sample_converter PageMarkdownRenderer sample_document
     = Inr (Some (''page_renders'', PyStr ''pages'', [''page_0_fig.png'' \<mapsto> PyObj ''img0''],
                  PyStr ''page metadata''))"
    by (simp add: render_def and_then_def collab_images_def collab0_def PageMarkdownRenderer_def)
  have b: "render collab_images sample_converter ChunkRenderer sample_document
     = Inr (Some (''chunks'', PyStr ''chunks'', [''chunk_3_fig.png'' \<mapsto> PyObj ''img3''],
                  PyStr ''chunk metadata''))"
    by (simp add: render_def and_then_def collab_images_def collab0_def ChunkRenderer_def)
  have c: "image_of (render_document collab_images sample_converter sample_document)
             ''page_0_fig.png'' = None"
    unfolding sample_render_document by (simp add: image_of_def)
  have d: "([''page_0_fig.png'' \<mapsto> PyObj ''img0''] ++ [''chunk_3_fig.png'' \<mapsto> PyObj ''img3''])
       ''page_0_fig.png'' = Some (PyObj ''img0'')"
    by (simp add: map_add_def)
  from a b c d show ?thesis by blast
qed

section \<open>The page structure: results\<close>

lemma find_in_appended:
  "find P (xs @ ys) = (case find P xs of None \<Rightarrow> find P ys | Some x \<Rightarrow> Some x)"
  by (induction xs) simp_all

text \<open>The loop leaves, under each key, the entry of the last page that carries it.\<close>

lemma page_structure_loop_last_page:
  "page_structure_loop str ps entry k =
     (case find (\<lambda>p. page_id p = k) (rev ps) of
        None \<Rightarrow> entry k
      | Some p \<Rightarrow> Some (if ignore_for_output p then [] else map str (structure p)))"
  by (induction ps arbitrary: entry) (auto simp: find_in_appended split: option.splits)

text \<open>
  C5 (as amended). For every document, the \<^verbatim>\<open>page_structure\<close> entry, which depends on
  the document alone and on no renderer, has a key for each page id of the document and
  for nothing else. Under a page's id it holds \<open>[]\<close> when the page is flagged as
  ignored for output, and otherwise the printed identities of the page's structure list,
  in order and none more: an empty list when the structure list is empty. Where several
  pages carry one id, the last of them decides the entry.
\<close>

theorem page_structure_entry_of_page:
  "page_structure str document k =
     map_option (\<lambda>p. if ignore_for_output p then [] else map str (structure p))
       (find (\<lambda>p. page_id p = k) (rev (pages document)))"
  by (simp add: page_structure_def page_structure_loop_last_page split: option.splits)

text \<open>
  C5 (counterexample). A page that is not flagged as ignored and has no blocks: its entry
  is \<open>[]\<close>, the value the claim keeps for ignored pages, and not a non-empty list.
\<close>

theorem blank_page_counterexample:
  "\<not> ignore_for_output blank_page
   \<and> blank_page \<in> set (pages blank_document)
   \<and> page_structure (\<lambda>i. i) blank_document (page_id blank_page) = Some []"
  by (simp add: blank_document_def blank_page_def page_structure_def)

section \<open>The temporary file: results\<close>

lemma try_finally_no_temp: "try_finally outcome (cleanup sys None) = outcome"
  by (simp add: try_finally_def cleanup_def split: prod.splits)

lemma cleanup_after_cleanup:
  "cleanup sys temp_file files = Inr files1 \<Longrightarrow> cleanup sys temp_file files1 = Inr files1"
  by (auto simp: cleanup_def os_path_exists_def os_unlink_def split: option.splits if_splits)

lemma parse_pdf_cleanup_never_raises:
  "\<exists>files1. parse_pdf_cleanup sys tmp_path files = Inr files1"
  by (auto simp: parse_pdf_cleanup_def os_path_exists_def os_unlink_def
      split: option.splits if_splits)

text \<open>
  C9. Once the temporary file is gone, the cleanup step of the converter and the one of
  \<^verbatim>\<open>parse_pdf\<close> return without an exception and leave the file system as it is: both
  test \<^verbatim>\<open>os.path.exists\<close> before they call \<^verbatim>\<open>os.unlink\<close>.
\<close>

theorem cleanup_idempotent:
  assumes "files name = None"
  shows "cleanup sys (Some name) files = Inr files
         \<and> parse_pdf_cleanup sys (Some name) files = Inr files"
  using assms by (simp add: cleanup_def parse_pdf_cleanup_def os_path_exists_def)

theorem cleanup_idempotent_witness:
  "cleanup os0 (Some ''/tmp/tmp0.pdf'') [''/tmp/tmp0.pdf'' \<mapsto> ''%PDF''] = Inr Map.empty
   \<and> cleanup os0 (Some ''/tmp/tmp0.pdf'') Map.empty = Inr Map.empty
   \<and> parse_pdf_cleanup os0 (Some ''/tmp/tmp0.pdf'') Map.empty = Inr Map.empty"
proof -
  have gone: "(Map.empty :: fs) ''/tmp/tmp0.pdf'' = None" by simp
  from cleanup_idempotent [OF gone, of os0] show ?thesis
    by (simp add: cleanup_def os_path_exists_def os_unlink_def os0_def)
qed

text \<open>
  C10. For a string path the context manager hands the path itself to the body and adds
  nothing to what the body does: no file is created, none is removed, so the input file
  is where the body left it. For a \<^verbatim>\<open>BytesIO\<close> input a temporary file with the bytes is
  created, the body gets its name, and the file is removed afterwards.
\<close>

theorem str_path_used_as_is:
  "filepath_to_str sys (StrInput p) body w = body p w
   \<and> (mktemp sys files = Some name \<and> files name = None \<and> \<not> write_fails sys name data
        \<and> \<not> unlink_denied sys name \<longrightarrow>
      filepath_to_str sys (BytesIOInput data) body (files, st) =
        (case body name (files(name \<mapsto> data), st) of
           (res, files1, st1) \<Rightarrow> (res, files1(name := None), st1)))"
  by (auto simp: filepath_to_str_def try_finally_no_temp try_finally_def cleanup_def
      NamedTemporaryFile_def file_write_def os_path_exists_def os_unlink_def
      split: prod.splits)

theorem str_path_used_as_is_witness:
  "filepath_to_str os0 (StrInput ''/data/in.pdf'') (\<lambda>p w. (Inr p, w))
     ([''/data/in.pdf'' \<mapsto> ''%PDF''], ())
     = (Inr ''/data/in.pdf'', [''/data/in.pdf'' \<mapsto> ''%PDF''], ())
   \<and> filepath_to_str os0 (BytesIOInput ''%PDF'') (\<lambda>p w. (Inr p, w)) (Map.empty, ())
     = (Inr ''/tmp/tmp0.pdf'', Map.empty, ())"
proof -
  have h: "mktemp os0 Map.empty = Some ''/tmp/tmp0.pdf''
           \<and> (Map.empty :: fs) ''/tmp/tmp0.pdf'' = None
           \<and> \<not> write_fails os0 ''/tmp/tmp0.pdf'' ''%PDF''
           \<and> \<not> unlink_denied os0 ''/tmp/tmp0.pdf''"
    by (simp add: os0_def)
  from str_path_used_as_is
         [of os0 "''/data/in.pdf''" "\<lambda>p w. (Inr p, w)" "([''/data/in.pdf'' \<mapsto> ''%PDF''], ())"
             Map.empty "''/tmp/tmp0.pdf''" "''%PDF''" "()"] h
  show ?thesis by simp
qed

section \<open>Construction: results\<close>

lemma init_llm_service_events:
  "init_llm_service env bag cfg v = (res, ev) \<Longrightarrow>
   filter is_bag_write ev = [] \<and> filter is_stage_resolution ev = []"
  by (auto simp: init_llm_service_def split: if_splits sum.splits list.splits)

lemma init_llm_service_none:
  "\<not> truthy v \<Longrightarrow> \<not> truthy (dict_get cfg ''use_llm'' (PyBool False)) \<Longrightarrow>
   init_llm_service env bag cfg v = (Inr (Plain v), [])"
  by (simp add: init_llm_service_def)

lemma init_after_parse_cases:
  assumes "init_after_parse env r bag pl cfg = (res, cfg1, bag1, ev)"
  shows "cfg1 = cfg(''renderer'' := None, ''llm_service'' := None)
         \<and> ((\<exists>e. res = Inl e \<and> bag1 = bag \<and> filter is_bag_write ev = []
                  \<and> filter is_stage_resolution ev = [])
              \<or> (\<exists>v pre ks. init_llm_service env bag cfg1 (dict_get cfg ''llm_service'' PyNone) = (Inr v, pre)
                    \<and> bag1 = bag(''llm_service'' \<mapsto> v)
                    \<and> ev = pre @ [BagWrite ''llm_service'' v, ProcessorsInitialized ks]
                    \<and> (\<forall>conv. res = Inr conv \<longrightarrow>
                          config conv = cfg1 \<and> artifact_dict conv = bag1 \<and> llm_service conv = v)))"
  using assms
  by (auto simp: init_after_parse_def Let_def dict_get_def
      split: sum.splits prod.splits dest: init_llm_service_events)

text \<open>
  What holds of the converter object before the \<^verbatim>\<open>with\<close> statement and is kept by
  its body holds after it: the context manager itself does not touch the object.
\<close>

lemma filepath_to_str_state:
  assumes "\<And>p w. P (snd w) \<Longrightarrow> P (snd (snd (body p w)))" and "P st"
  shows "P (snd (snd (filepath_to_str sys file_input body (files, st))))"
proof -
  have tf: "\<And>outcome block. P (snd (snd outcome)) \<Longrightarrow> P (snd (snd (try_finally outcome block)))"
    by (auto simp: try_finally_def split: prod.splits sum.splits)
  show ?thesis
    unfolding filepath_to_str_def
    by (auto intro!: tf assms split: file_input.splits sum.splits prod.splits)
qed

lemma call_body_artifact_dict:
  "artifact_dict (snd (snd (call_body env p w))) = artifact_dict (snd w)"
  by (auto simp: call_body_def Let_def split: prod.splits sum.splits)

lemma call_body_config:
  "config (snd (snd (call_body env p w))) = config (snd w)"
  by (auto simp: call_body_def Let_def split: prod.splits sum.splits)

lemma call_keeps_artifact_dict:
  "artifact_dict (snd (snd (PdfConverter_call env sys self filepath files))) = artifact_dict self"
  unfolding PdfConverter_call_def
  by (rule filepath_to_str_state [where P = "\<lambda>s. artifact_dict s = artifact_dict self"])
     (simp_all add: call_body_artifact_dict)

lemma call_keeps_config:
  "config (snd (snd (PdfConverter_call env sys self filepath files))) = config self"
  unfolding PdfConverter_call_def
  by (rule filepath_to_str_state [where P = "\<lambda>s. config s = config self"])
     (simp_all add: call_body_config)

text \<open>The constructor's statements after line 133 on the sample configuration, evaluated.\<close>

lemma sample_init:
  "init_after_parse collab0 PyNone Map.empty None sample_config =
     (Inr sample_converter, [''use_llm'' \<mapsto> PyBool False], [''llm_service'' \<mapsto> Plain PyNone],
      [BagWrite ''llm_service'' (Plain PyNone), ProcessorsInitialized default_processors])"
  by (simp add: init_after_parse_def init_select_def init_llm_service_def and_then_def
      dict_get_def collab0_def sample_config_def sample_converter_def Let_def fun_upd_twist)

text \<open>
  C6. In every run of the constructor's statements that follow the parsing of the
  renderer selector (lines 134-186, whatever the parser returned), the artifact bag is
  written at most once, under the key \<^verbatim>\<open>llm_service\<close>, and no stage has been resolved
  before that write: the processors are initialized after it. When the configuration has
  no \<^verbatim>\<open>llm_service\<close> and \<^verbatim>\<open>use_llm\<close> is false or missing, the bag is left as the
  caller passed it or holds \<^verbatim>\<open>None\<close> under that key, and it holds \<^verbatim>\<open>None\<close>
  whenever a converter object was constructed. A conversion call does not write to the
  bag, and the constructor as a whole writes to it at most once.
\<close>

theorem llm_service_written_once:
  assumes "init_after_parse env r bag pl cfg = (res, cfg1, bag1, ev)"
  shows "length (filter is_bag_write ev) \<le> 1
       \<and> filter is_stage_resolution (takeWhile (\<lambda>e. \<not> is_bag_write e) ev) = []
       \<and> (cfg ''llm_service'' = None \<and> \<not> truthy (dict_get cfg ''use_llm'' (PyBool False)) \<longrightarrow>
            (bag1 = bag \<or> bag1 = bag(''llm_service'' \<mapsto> Plain PyNone))
            \<and> (\<forall>conv. res = Inr conv \<longrightarrow>
                  bag1 ''llm_service'' = Some (Plain PyNone)
                  \<and> artifact_dict conv = bag1 \<and> llm_service conv = Plain PyNone))
       \<and> artifact_dict (snd (snd (PdfConverter_call env sys self filepath files)))
           = artifact_dict self
       \<and> length (filter is_bag_write (snd (snd (snd (PdfConverter_init env bag pl config_arg)))))
           \<le> 1"
proof -
  note c = init_after_parse_cases [OF assms]
  have whole: "length (filter is_bag_write
                 (snd (snd (snd (PdfConverter_init env bag pl config_arg))))) \<le> 1"
    by (cases config_arg) (simp_all add: PdfConverter_init_def renderer2cls_raises)
  have w: "length (filter is_bag_write ev) \<le> 1"
    using c by (auto dest: init_llm_service_events)
  have s: "filter is_stage_resolution (takeWhile (\<lambda>e. \<not> is_bag_write e) ev) = []"
  proof -
    from c consider (fail) "filter is_stage_resolution ev = []"
      | (ok) v pre ks where "ev = pre @ [BagWrite ''llm_service'' v, ProcessorsInitialized ks]"
          "filter is_bag_write pre = []" "filter is_stage_resolution pre = []"
      by (auto dest: init_llm_service_events)
    then show ?thesis
    proof cases
      case fail
      then show ?thesis
        by (metis filter_empty_conv set_takeWhileD)
    next
      case ok
      from ok(2) have "\<forall>e\<in>set pre. \<not> is_bag_write e" by (simp add: filter_empty_conv)
      then have "takeWhile (\<lambda>e. \<not> is_bag_write e) ev = pre"
        using ok(1) by simp
      with ok(3) show ?thesis by simp
    qed
  qed
  have n: "cfg ''llm_service'' = None \<and> \<not> truthy (dict_get cfg ''use_llm'' (PyBool False)) \<longrightarrow>
            (bag1 = bag \<or> bag1 = bag(''llm_service'' \<mapsto> Plain PyNone))
            \<and> (\<forall>conv. res = Inr conv \<longrightarrow>
                  bag1 ''llm_service'' = Some (Plain PyNone)
                  \<and> artifact_dict conv = bag1 \<and> llm_service conv = Plain PyNone)"
  proof
    assume h: "cfg ''llm_service'' = None \<and> \<not> truthy (dict_get cfg ''use_llm'' (PyBool False))"
    then have u: "\<not> truthy (dict_get cfg1 ''use_llm'' (PyBool False))"
      using c by (simp add: dict_get_def)
    from h have "dict_get cfg ''llm_service'' PyNone = PyNone" by (simp add: dict_get_def)
    with u have "init_llm_service env bag cfg1 (dict_get cfg ''llm_service'' PyNone)
                   = (Inr (Plain PyNone), [])"
      by (simp add: init_llm_service_none)
    with c show "(bag1 = bag \<or> bag1 = bag(''llm_service'' \<mapsto> Plain PyNone))
            \<and> (\<forall>conv. res = Inr conv \<longrightarrow>
                  bag1 ''llm_service'' = Some (Plain PyNone)
                  \<and> artifact_dict conv = bag1 \<and> llm_service conv = Plain PyNone)"
      by auto
  qed
  from w s n call_keeps_artifact_dict whole show ?thesis by blast
qed

theorem llm_service_written_once_witness:
  "init_after_parse collab0 PyNone Map.empty None sample_config =
     (Inr sample_converter, [''use_llm'' \<mapsto> PyBool False], [''llm_service'' \<mapsto> Plain PyNone],
      [BagWrite ''llm_service'' (Plain PyNone), ProcessorsInitialized default_processors])
   \<and> artifact_dict sample_converter ''llm_service'' = Some (Plain PyNone)
   \<and> llm_service sample_converter = Plain PyNone"
proof -
  have h: "sample_config ''llm_service'' = None
           \<and> \<not> truthy (dict_get sample_config ''use_llm'' (PyBool False))"
    by (simp add: sample_config_def dict_get_def)
  from llm_service_written_once [OF sample_init] h sample_init show ?thesis
    by simp
qed

text \<open>
  Handing every stage the converter's own configuration, in place of whatever the
  converter passes, changes nothing: the configuration the converter passes to the
  provider, the document builder and every resolution is \<^verbatim>\<open>self.config\<close>.
\<close>

lemma run_processors_cong_env:
  "call_processor env' = call_processor env \<Longrightarrow>
   run_processors env' ps d = run_processors env ps d"
  by (induction ps arbitrary: d) (simp_all split: sum.splits)

lemma with_config_build_document:
  "build_document (with_config (config self) env) self files p = build_document env self files p"
proof -
  have rp: "\<And>ps d. run_processors (with_config (config self) env) ps d = run_processors env ps d"
    by (rule run_processors_cong_env) (simp add: with_config_def)
  show ?thesis
    by (simp add: build_document_def rp) (simp add: with_config_def)
qed

lemma with_config_call_body:
  "config (snd w) = c \<Longrightarrow> call_body (with_config c env) p w = call_body env p w"
proof -
  assume c: "config (snd w) = c"
  obtain files self where w: "w = (files, self)" by (cases w)
  with c have cs: "c = config self" by simp
  have r: "\<And>b t. resolve_dependencies (with_config c env) b c t = resolve_dependencies env b c t"
    and cr: "call_renderer (with_config c env) = call_renderer env"
    by (simp_all add: with_config_def)
  show ?thesis
    unfolding w call_body_def cs
    by (simp add: with_config_build_document Let_def split: sum.splits)
       (simp add: with_config_def)
qed

lemma filepath_to_str_cong_body:
  assumes "\<And>p w. P (snd w) \<Longrightarrow> body1 p w = body2 p w" and "P st"
  shows "filepath_to_str sys file_input body1 (files, st)
         = filepath_to_str sys file_input body2 (files, st)"
  using assms
  by (auto simp: filepath_to_str_def split: file_input.splits sum.splits prod.splits)

lemma with_config_call:
  "PdfConverter_call (with_config (config self) env) sys self filepath files
   = PdfConverter_call env sys self filepath files"
  unfolding PdfConverter_call_def
  by (rule filepath_to_str_cong_body [where P = "\<lambda>s. config s = config self"])
     (simp_all add: with_config_call_body)

lemma with_config_render:
  "render (with_config (config self) env) self k d = render env self k d"
proof -
  have r: "\<And>b t. resolve_dependencies (with_config (config self) env) b (config self) t
                 = resolve_dependencies env b (config self) t"
    and cr: "call_renderer (with_config (config self) env) = call_renderer env"
    and ct: "cleanup_text (with_config (config self) env) = cleanup_text env"
    by (simp_all add: with_config_def)
  show ?thesis
    unfolding render_def r cr ct ..
qed


text \<open>
  C7. The configuration mapping the caller supplies is not changed: constructing a
  converter leaves the caller's mapping as it was passed, for every mapping (the
  statements of lines 135-141 that would remove \<^verbatim>\<open>renderer\<close> and
  \<^verbatim>\<open>llm_service\<close> are never reached, line 133 raises first), and a conversion call
  on any converter object leaves the object's configuration as it is. Every stage of a
  call, of the document build and of a rendering is handed that same configuration.
\<close>

theorem configuration_unchanged:
  "fst (snd (PdfConverter_init env bag pl config_arg)) = config_arg
   \<and> config (snd (snd (PdfConverter_call env sys self filepath files))) = config self
   \<and> PdfConverter_call (with_config (config self) env) sys self filepath files
       = PdfConverter_call env sys self filepath files
   \<and> build_document (with_config (config self) env) self files temp_path
       = build_document env self files temp_path
   \<and> render (with_config (config self) env) self renderer_cls document
       = render env self renderer_cls document"
proof -
  have "fst (snd (PdfConverter_init env bag pl config_arg)) = config_arg"
    by (cases config_arg) (simp_all add: PdfConverter_init_def renderer2cls_raises)
  with call_keeps_config with_config_call with_config_build_document with_config_render
  show ?thesis by blast
qed

section \<open>Cleanup failures\<close>

text \<open>
  When the operating system does not refuse the removal, the temporary file of a
  \<^verbatim>\<open>BytesIO\<close> input is gone after the \<^verbatim>\<open>with\<close> statement on every exit path:
  a failed write, an exception of the body, a result of the body.
\<close>

lemma temp_file_removed_on_every_exit:
  "mktemp sys files = Some name \<Longrightarrow> files name = None \<Longrightarrow> \<not> unlink_denied sys name \<Longrightarrow>
   fst (snd (filepath_to_str sys (BytesIOInput data) body (files, st))) name = None"
  by (auto simp: filepath_to_str_def try_finally_def cleanup_def NamedTemporaryFile_def
      file_write_def os_path_exists_def os_unlink_def split: prod.splits sum.splits)

text \<open>
  When the removal is refused, the exception of \<^verbatim>\<open>os.unlink\<close> is what the
  \<^verbatim>\<open>with\<close> statement raises, whatever the body returned or raised.
\<close>

lemma refused_unlink_replaces_outcome:
  "mktemp sys files = Some name \<Longrightarrow> files name = None \<Longrightarrow> \<not> write_fails sys name data \<Longrightarrow>
   unlink_denied sys name \<Longrightarrow>
   fst (snd (body name (files(name \<mapsto> data), st))) name \<noteq> None \<Longrightarrow>
   fst (filepath_to_str sys (BytesIOInput data) body (files, st)) = Inl (OSError ''PermissionError'')"
  by (auto simp: filepath_to_str_def try_finally_def cleanup_def NamedTemporaryFile_def
      file_write_def os_path_exists_def os_unlink_def split: prod.splits sum.splits)

text \<open>
  C8 (the code at the failing input). A \<^verbatim>\<open>BytesIO\<close> input on a system that refuses
  to remove the temporary file: a body that returns its result ends in
  \<^verbatim>\<open>OSError\<close> in place of the result, and a conversion whose processor chain raises
  ends in \<^verbatim>\<open>OSError\<close> in place of the processor's exception; the temporary file
  stays. Where the removal is granted, the same runs end in the result and in the
  processor's exception. The cleanup of \<^verbatim>\<open>parse_pdf\<close> catches the \<^verbatim>\<open>OSError\<close>
  of the same refused removal.
\<close>

theorem cleanup_failure_replaces_outcome:
  "filepath_to_str os0 (BytesIOInput ''%PDF'') (\<lambda>p w. (Inr p, w)) (Map.empty, ())
     = (Inr ''/tmp/tmp0.pdf'', Map.empty, ())
   \<and> filepath_to_str os_denied (BytesIOInput ''%PDF'') (\<lambda>p w. (Inr p, w)) (Map.empty, ())
     = (Inl (OSError ''PermissionError''), [''/tmp/tmp0.pdf'' \<mapsto> ''%PDF''], ())
   \<and> fst (PdfConverter_call collab_llm_down os0 sample_converter (BytesIOInput ''%PDF'') Map.empty)
     = Inl (StageError ''LLM service unavailable'')
   \<and> fst (PdfConverter_call collab_llm_down os_denied sample_converter (BytesIOInput ''%PDF'')
            Map.empty)
     = Inl (OSError ''PermissionError'')
   \<and> parse_pdf_cleanup os_denied (Some ''/tmp/tmp0.pdf'') [''/tmp/tmp0.pdf'' \<mapsto> ''%PDF'']
     = Inr [''/tmp/tmp0.pdf'' \<mapsto> ''%PDF'']"
proof -
  have a: "filepath_to_str os0 (BytesIOInput ''%PDF'') (\<lambda>p w. (Inr p, w)) (Map.empty, ())
     = (Inr ''/tmp/tmp0.pdf'', Map.empty, ())"
    by (simp add: filepath_to_str_def try_finally_def cleanup_def NamedTemporaryFile_def
        file_write_def os_path_exists_def os_unlink_def os0_def)
  have b: "filepath_to_str os_denied (BytesIOInput ''%PDF'') (\<lambda>p w. (Inr p, w)) (Map.empty, ())
     = (Inl (OSError ''PermissionError''), [''/tmp/tmp0.pdf'' \<mapsto> ''%PDF''], ())"
    by (simp add: filepath_to_str_def try_finally_def cleanup_def NamedTemporaryFile_def
        file_write_def os_path_exists_def os_unlink_def os0_def os_denied_def)
  have body: "\<And>files. call_body collab_llm_down ''/tmp/tmp0.pdf'' (files, sample_converter)
     = (Inl (StageError ''LLM service unavailable''), files, sample_converter)"
  proof -
    fix files :: fs
    have "build_document collab_llm_down sample_converter files ''/tmp/tmp0.pdf''
          = run_processors collab_llm_down default_processors sample_document"
      by (simp add: build_document_def and_then_def collab_llm_down_def collab0_def
          sample_converter_def)
    also have "\<dots> = Inl (StageError ''LLM service unavailable'')"
      by (simp add: collab_llm_down_def collab0_def llm_assisted_def default_processors_def)
    finally show "call_body collab_llm_down ''/tmp/tmp0.pdf'' (files, sample_converter)
     = (Inl (StageError ''LLM service unavailable''), files, sample_converter)"
      by (simp add: call_body_def)
  qed
  have c: "fst (PdfConverter_call collab_llm_down os0 sample_converter (BytesIOInput ''%PDF'')
                  Map.empty)
     = Inl (StageError ''LLM service unavailable'')"
    by (simp add: PdfConverter_call_def filepath_to_str_def try_finally_def cleanup_def
        NamedTemporaryFile_def file_write_def os_path_exists_def os_unlink_def os0_def body)
  have d: "fst (PdfConverter_call collab_llm_down os_denied sample_converter (BytesIOInput ''%PDF'')
            Map.empty)
     = Inl (OSError ''PermissionError'')"
    by (simp add: PdfConverter_call_def filepath_to_str_def try_finally_def cleanup_def
        NamedTemporaryFile_def file_write_def os_path_exists_def os_unlink_def os0_def
        os_denied_def body)
  have e: "parse_pdf_cleanup os_denied (Some ''/tmp/tmp0.pdf'') [''/tmp/tmp0.pdf'' \<mapsto> ''%PDF'']
     = Inr [''/tmp/tmp0.pdf'' \<mapsto> ''%PDF'']"
    by (simp add: parse_pdf_cleanup_def os_path_exists_def os_unlink_def os0_def os_denied_def)
  from a b c d e show ?thesis by blast
qed

section \<open>The render result of a conversion\<close>

text \<open>
  C1 (the code at the failing input). Constructing a converter raises
  \<^verbatim>\<open>UnboundLocalError\<close> for every configuration mapping, the ones with
  \<^verbatim>\<open>renderer\<close> unset among them: line 133 calls \<open>renderer2cls\<close>, whose first
  line reads a local variable that has no value. No converter object exists on which a
  conversion could be called, so no render result is returned. With the local bound to
  the selector, an unset \<^verbatim>\<open>renderer\<close> (\<^verbatim>\<open>None\<close>) would raise \<^verbatim>\<open>TypeError\<close>
  at \<^verbatim>\<open>'+' in renderer\<close>.
\<close>

theorem construction_raises_UnboundLocalError:
  "PdfConverter_init env bag pl (Some cfg)
     = (Inl (UnboundLocalError ''renderer''), Some cfg, bag, [])
   \<and> renderer2cls_from (Some PyNone) PyNone = Inl (TypeError ''argument is not iterable'')"
  by (simp add: PdfConverter_init_def renderer2cls_raises)

text \<open>
  What the rest of the code does for the default renderers. A selector value that is not
  truthy makes the constructor select the page-markdown and the chunk renderer;
  \<^verbatim>\<open>render_document\<close> on that list returns the keys \<^verbatim>\<open>page_structure\<close>,
  \<^verbatim>\<open>page_renders\<close>, \<^verbatim>\<open>chunks\<close>, \<^verbatim>\<open>images\<close> and \<^verbatim>\<open>metadata\<close> and no
  other; and the page structure of a one-page document has one entry.
\<close>

lemma default_renderers_selected:
  "\<not> truthy r \<Longrightarrow> init_after_parse env r bag pl cfg = (Inr conv, cfg1, bag1, ev) \<Longrightarrow>
   renderer conv = ClassList [PageMarkdownRenderer, ChunkRenderer]"
  by (auto simp: init_after_parse_def init_select_def and_then_def Let_def
      split: sum.splits prod.splits option.splits)

lemma render_loop_default:
  "render_loop env self document [PageMarkdownRenderer, ChunkRenderer] out0 md0 = Inr (out, md) \<Longrightarrow>
   dom out = dom out0 \<union> {''page_renders'', ''chunks'', ''images''}"
  by (auto simp: render_def and_then_def PageMarkdownRenderer_def ChunkRenderer_def
      split: sum.splits option.splits prod.splits if_splits)

lemma default_render_result_keys:
  assumes "renderer self = ClassList [PageMarkdownRenderer, ChunkRenderer]"
      and "render_document env self document = Inr out"
  shows "dom out = {''page_structure'', ''page_renders'', ''chunks'', ''images'', ''metadata''}
         \<and> out ''page_structure'' = Some (PageStructure (page_structure (str_identity env) document))"
proof -
  from assms obtain out1 md where
    loop: "render_loop env self document [PageMarkdownRenderer, ChunkRenderer]
             [''page_structure'' \<mapsto> PageStructure (page_structure (str_identity env) document)]
             None = Inr (out1, Some md)"
    and out: "out = out1(''metadata'' \<mapsto> Metadata md)"
    by (auto simp: render_document_def split: sum.splits option.splits)
  from render_loop_default [OF loop] have d: "dom out1 = {''page_structure'', ''page_renders'', ''chunks'', ''images''}"
    by auto
  have ps: "out1 ''page_structure'' = Some (PageStructure (page_structure (str_identity env) document))"
    using loop
    by (auto simp: render_def and_then_def PageMarkdownRenderer_def ChunkRenderer_def
        split: sum.splits option.splits prod.splits if_splits)
  from d ps out show ?thesis by auto
qed

lemma single_page_structure:
  "pages document = [p] \<Longrightarrow> dom (page_structure str document) = {page_id p}"
  by (auto simp: page_structure_def split: if_splits)

end
